theory Spec2Isabelle
  imports Complex_Main "HOL-Library.Log_Nat"
begin

section \<open>OpenLKAS: lane-centre estimation, drift classification and departure alerts\<close>

text \<open>
  A shallow embedding of \<^verbatim>\<open>utils.py\<close>, \<^verbatim>\<open>lane_detector.py\<close>, \<^verbatim>\<open>audio_alert.py\<close> and the
  main loop of \<^verbatim>\<open>main.py\<close>.

  Conventions.
  \<^item> Python \<^verbatim>\<open>float\<close> values are modelled by \<^typ>\<open>real\<close>, and \<^verbatim>\<open>None\<close> by \<^const>\<open>None\<close>.
    Where a statement depends on the rounding of binary64 arithmetic, the rounding is written
    out (section ``The blend in binary64 arithmetic'').
  \<^item> Python truthiness is written out: \<^verbatim>\<open>x if x else y\<close> on an optional float takes
    \<^verbatim>\<open>y\<close> both for \<^verbatim>\<open>None\<close> and for \<^verbatim>\<open>0.0\<close>.
  \<^item> Instance attributes become record fields; a method that mutates \<^verbatim>\<open>self\<close> returns
    the updated record.
  \<^item> What OpenCV, the wall clock and the audio thread deliver is an input of the model.
\<close>

subsection \<open>Line segments and slopes (\<^verbatim>\<open>utils.py\<close>)\<close>

text \<open>
  \<^verbatim>\<open>cv2.HoughLinesP\<close> returns integer end points; \<^verbatim>\<open>x1, y1, x2, y2 = line[0]\<close>.
\<close>

type_synonym segment = "int \<times> int \<times> int \<times> int"

text \<open>
  \<^verbatim>\<open>slope = (y2 - y1) / (x2 - x1) if x2 != x1 else float('inf')\<close>: a finite quotient or
  the float \<^verbatim>\<open>inf\<close>.
\<close>

datatype slope = Finite real | Inf

fun slope_of :: "segment \<Rightarrow> slope" where
  "slope_of (x1, y1, x2, y2) =
     (if x2 \<noteq> x1 then Finite (real_of_int (y2 - y1) / real_of_int (x2 - x1)) else Inf)"

fun abs_slope :: "slope \<Rightarrow> slope" where
  "abs_slope (Finite r) = Finite \<bar>r\<bar>"
| "abs_slope Inf = Inf"

fun slope_less :: "slope \<Rightarrow> real \<Rightarrow> bool" where
  "slope_less (Finite r) c = (r < c)"
| "slope_less Inf c = False"

fun slope_greater :: "slope \<Rightarrow> real \<Rightarrow> bool" where
  "slope_greater (Finite r) c = (r > c)"
| "slope_greater Inf c = True"

subsection \<open>\<^verbatim>\<open>calculate_center_offset\<close> and \<^verbatim>\<open>is_lane_departure\<close>\<close>

definition calculate_center_offset :: "real \<Rightarrow> real \<Rightarrow> real" where
  "calculate_center_offset lane_center image_center = lane_center - image_center"

definition is_lane_departure :: "real \<Rightarrow> real \<Rightarrow> bool" where
  "is_lane_departure offset threshold = (\<bar>offset\<bar> > threshold)"

subsection \<open>\<^verbatim>\<open>calculate_lane_center\<close>\<close>

text \<open>
  The first loop: each line is skipped (\<^verbatim>\<open>continue\<close>), appended to \<^verbatim>\<open>left_lines\<close> or
  appended to \<^verbatim>\<open>right_lines\<close>.
\<close>

fun separate_lines :: "segment list \<Rightarrow> segment list \<Rightarrow> segment list \<Rightarrow> segment list \<times> segment list"
  where
  "separate_lines [] left_lines right_lines = (left_lines, right_lines)"
| "separate_lines (line # rest) left_lines right_lines =
     (let slope = slope_of line in
      if slope_less (abs_slope slope) 0.5 \<or> slope_greater (abs_slope slope) 2.0
      then separate_lines rest left_lines right_lines
      else if slope_less slope 0
      then separate_lines rest (left_lines @ [line]) right_lines
      else separate_lines rest left_lines (right_lines @ [line]))"

text \<open>The loops \<^verbatim>\<open>x_coords.extend([x1, x2])\<close>.\<close>

fun extend_x_coords :: "segment list \<Rightarrow> int list \<Rightarrow> int list" where
  "extend_x_coords [] x_coords = x_coords"
| "extend_x_coords ((x1, y1, x2, y2) # rest) x_coords = extend_x_coords rest (x_coords @ [x1, x2])"

text \<open>\<^verbatim>\<open>np.mean\<close> of a non-empty list of integers.\<close>

definition np_mean :: "int list \<Rightarrow> real" where
  "np_mean xs = real_of_int (sum_list xs) / real (length xs)"

definition side_center :: "segment list \<Rightarrow> real option" where
  "side_center side_lines =
     (if side_lines \<noteq> [] then Some (np_mean (extend_x_coords side_lines [])) else None)"

definition calculate_lane_center :: "segment list option \<Rightarrow> int \<Rightarrow> real option" where
  "calculate_lane_center lines image_width =
     (case lines of
        None \<Rightarrow> None
      | Some ls \<Rightarrow>
          if length ls = 0 then None
          else
            (case separate_lines ls [] [] of
               (left_lines, right_lines) \<Rightarrow>
                 (case (side_center left_lines, side_center right_lines) of
                    (Some left_center, Some right_center) \<Rightarrow> Some ((left_center + right_center) / 2)
                  | (Some left_center, None) \<Rightarrow> Some (left_center + 100)
                  | (None, Some right_center) \<Rightarrow> Some (right_center - 100)
                  | (None, None) \<Rightarrow> None)))"

subsection \<open>The lane-centre estimator as the specification words it\<close>

text \<open>
  The slope of a segment is \<open>(y2 - y1) / (x2 - x1)\<close>, and \<open>+\<infinity>\<close> when \<open>x1 = x2\<close>. These
  definitions follow the words of the specification and do not use the code's
  \<^const>\<open>slope_of\<close>.
\<close>

definition vertical :: "segment \<Rightarrow> bool" where
  "vertical s = (case s of (x1, y1, x2, y2) \<Rightarrow> x1 = x2)"

definition finite_slope :: "segment \<Rightarrow> real" where
  "finite_slope s =
     (case s of (x1, y1, x2, y2) \<Rightarrow>
        (real_of_int y2 - real_of_int y1) / (real_of_int x2 - real_of_int x1))"

text \<open>
  A segment is discarded when its absolute slope is below 0.5 or above 2.0; the slope
  \<open>+\<infinity>\<close> of a vertical segment is above 2.0.
\<close>

definition discarded :: "segment \<Rightarrow> bool" where
  "discarded s = (vertical s \<or> \<bar>finite_slope s\<bar> < 0.5 \<or> \<bar>finite_slope s\<bar> > 2.0)"

text \<open>Of the remaining segments, negative slope is left, non-negative slope is right.\<close>

definition left_set :: "segment list \<Rightarrow> segment list" where
  "left_set ls = filter (\<lambda>s. \<not> discarded s \<and> finite_slope s < 0) ls"

definition right_set :: "segment list \<Rightarrow> segment list" where
  "right_set ls = filter (\<lambda>s. \<not> discarded s \<and> finite_slope s \<ge> 0) ls"

text \<open>The arithmetic mean of all \<open>x1\<close> and \<open>x2\<close> end points of a list of segments.\<close>

definition endpoint_mean :: "segment list \<Rightarrow> real" where
  "endpoint_mean side =
     real_of_int (\<Sum>(x1, y1, x2, y2) \<leftarrow> side. x1 + x2) / real (2 * length side)"

definition estimator_spec :: "segment list \<Rightarrow> real option" where
  "estimator_spec ls =
     (if left_set ls \<noteq> [] \<and> right_set ls \<noteq> []
        then Some ((endpoint_mean (left_set ls) + endpoint_mean (right_set ls)) / 2)
      else if left_set ls \<noteq> [] then Some (endpoint_mean (left_set ls) + 100)
      else if right_set ls \<noteq> [] then Some (endpoint_mean (right_set ls) - 100)
      else None)"

subsection \<open>Truthiness of an optional float\<close>

text \<open>
  \<^verbatim>\<open>if x\<close>, \<^verbatim>\<open>x and ...\<close> and \<^verbatim>\<open>a if x else b\<close> test the truth value of \<^verbatim>\<open>x\<close>:
  \<^verbatim>\<open>None\<close> is false, and so is the float \<^verbatim>\<open>0.0\<close>.
\<close>

definition truthy :: "real option \<Rightarrow> bool" where
  "truthy x = (case x of None \<Rightarrow> False | Some v \<Rightarrow> v \<noteq> 0)"

subsection \<open>The detector (\<^verbatim>\<open>lane_detector.py\<close>)\<close>

text \<open>
  The attributes of \<^verbatim>\<open>LaneDetector\<close> that \<^verbatim>\<open>_calculate_drift\<close> reads or writes. The
  tuning parameters of OpenCV are not modelled: what OpenCV returns for a frame is an input.
\<close>

record LaneDetector =
  departure_threshold :: real
  last_lane_center :: "real option"
  smoothing_factor :: real

definition create_lane_detector :: "real \<Rightarrow> LaneDetector" where
  "create_lane_detector th =
     \<lparr>departure_threshold = th, last_lane_center = None, smoothing_factor = 0.7\<rparr>"

definition update_threshold :: "LaneDetector \<Rightarrow> real \<Rightarrow> LaneDetector" where
  "update_threshold self new_threshold = self\<lparr>departure_threshold := new_threshold\<rparr>"

text \<open>
  A frame, as far as the detector is concerned: its width (\<^verbatim>\<open>frame.shape[1]\<close>), what
  steps 1 to 4 of \<^verbatim>\<open>detect_lanes\<close> (grey scale, blur, mask, Canny, Hough) deliver for it,
  either an exception or the value of \<^verbatim>\<open>cv2.HoughLinesP\<close> (which is \<^verbatim>\<open>None\<close> when no
  line is found), and whether drawing the overlays (step 6) raises.
\<close>

datatype cv_result = CvRaises | CvLines "segment list option"

record frame =
  frame_width :: int
  cv_lines :: cv_result
  overlay_raises :: bool

text \<open>The annotated frame: the arguments \<^verbatim>\<open>_add_visual_overlays\<close> draws.\<close>

datatype overlay = Overlay "segment list option" real "real option"

text \<open>
  The dictionary returned by \<^verbatim>\<open>detect_lanes\<close>, one field for each key. The key
  \<^verbatim>\<open>processed_frame\<close>, which \<^verbatim>\<open>_calculate_drift\<close> does not set, is \<^const>\<open>None\<close> there.
\<close>

record detection =
  lines :: "segment list option"
  lane_center :: "real option"
  image_center :: "real option"
  offset :: real
  off_lane :: bool
  processed_frame :: "overlay option"

definition empty_result :: detection where
  "empty_result =
     \<lparr>lines = None, lane_center = None, image_center = None, offset = 0.0, off_lane = False,
      processed_frame = None\<rparr>"

text \<open>
  The temporal blend of \<^verbatim>\<open>_calculate_drift\<close>, applied when both the new estimate and the
  previous centre are not \<^verbatim>\<open>None\<close>.
\<close>

definition blend :: "real \<Rightarrow> real \<Rightarrow> real \<Rightarrow> real" where
  "blend factor previous new = factor * previous + (1 - factor) * new"

definition smoothed_center :: "LaneDetector \<Rightarrow> real option \<Rightarrow> real option" where
  "smoothed_center self estimate =
     (case (estimate, last_lane_center self) of
        (Some new, Some previous) \<Rightarrow> Some (blend (smoothing_factor self) previous new)
      | _ \<Rightarrow> estimate)"

text \<open>
  \<^verbatim>\<open>if lane_center is not None: self.last_lane_center = lane_center\<close>, else
  \<^verbatim>\<open>lane_center = self.last_lane_center if self.last_lane_center else image_center\<close>.
\<close>

definition accept_center :: "LaneDetector \<Rightarrow> real option \<Rightarrow> real \<Rightarrow> LaneDetector \<times> real" where
  "accept_center self smoothed center_of_image =
     (case smoothed of
        Some c \<Rightarrow> (self\<lparr>last_lane_center := Some c\<rparr>, c)
      | None \<Rightarrow>
          (self,
           if truthy (last_lane_center self)
           then (case last_lane_center self of Some l \<Rightarrow> l | None \<Rightarrow> center_of_image)
           else center_of_image))"

definition calculate_drift :: "LaneDetector \<Rightarrow> frame \<Rightarrow> segment list option \<Rightarrow> LaneDetector \<times> detection"
  where
  "calculate_drift self fr ls =
     (let center_of_image = real_of_int (frame_width fr) / 2;
          estimate = (if ls \<noteq> None then calculate_lane_center ls (frame_width fr) else None)
      in case accept_center self (smoothed_center self estimate) center_of_image of
           (self', accepted) \<Rightarrow>
             (let off = calculate_center_offset accepted center_of_image
              in (self',
                  \<lparr>lines = ls, lane_center = Some accepted, image_center = Some center_of_image,
                   offset = off, off_lane = is_lane_departure off (departure_threshold self'),
                   processed_frame = None\<rparr>)))"

text \<open>
  \<^verbatim>\<open>detect_lanes\<close>: a \<^verbatim>\<open>None\<close> frame and every exception inside the \<^verbatim>\<open>try\<close> block give
  \<^verbatim>\<open>_empty_result()\<close>. An exception of step 6 comes after \<^verbatim>\<open>_calculate_drift\<close> has
  updated the detector.
\<close>

definition detect_lanes :: "LaneDetector \<Rightarrow> frame option \<Rightarrow> LaneDetector \<times> detection" where
  "detect_lanes self fo =
     (case fo of
        None \<Rightarrow> (self, empty_result)
      | Some fr \<Rightarrow>
          (case cv_lines fr of
             CvRaises \<Rightarrow> (self, empty_result)
           | CvLines ls \<Rightarrow>
               (case calculate_drift self fr ls of
                  (self', result) \<Rightarrow>
                    if overlay_raises fr then (self', empty_result)
                    else (self',
                          result\<lparr>processed_frame :=
                            Some (Overlay ls (offset result) (lane_center result))\<rparr>))))"

subsection \<open>Feeding frames to \<^verbatim>\<open>_calculate_drift\<close>\<close>

text \<open>
  \<^verbatim>\<open>_calculate_drift\<close> called once per frame, each frame with the lines found in it; the
  results are listed in order.
\<close>

fun feed :: "LaneDetector \<Rightarrow> (frame \<times> segment list option) list \<Rightarrow> LaneDetector \<times> detection list"
  where
  "feed self [] = (self, [])"
| "feed self ((fr, ls) # rest) =
     (case calculate_drift self fr ls of
        (self', result) \<Rightarrow>
          (case feed self' rest of (final, later) \<Rightarrow> (final, result # later)))"

subsection \<open>The blend in binary64 arithmetic\<close>

text \<open>
  A Python \<^verbatim>\<open>float\<close> is an IEEE 754 binary64 number, and each of \<^verbatim>\<open>+\<close>, \<^verbatim>\<open>-\<close>, \<^verbatim>\<open>*\<close>,
  \<^verbatim>\<open>/\<close> returns the exact result rounded to the nearest such number, ties to the even
  significand. The rounding is written out here for results in the normal range (magnitude
  from \<open>1 / 2 ^ 1022\<close> up to \<open>2 ^ 1024\<close>, where the significand has 53 bits); overflow and
  subnormal numbers are not modelled.
\<close>

text \<open>The integer nearest to \<open>y\<close>, the even one of the two when \<open>y\<close> lies half way.\<close>

definition round_half_even :: "real \<Rightarrow> int" where
  "round_half_even y =
     (let m = \<lfloor>y\<rfloor>; f = y - of_int m
      in if f < 1 / 2 then m else if f > 1 / 2 then m + 1 else if even m then m else m + 1)"

text \<open>
  The binary exponent of a positive number: \<open>binade x = e\<close> when \<open>pow2 e \<le> x < pow2 (e + 1)\<close>,
  computed from the bit length of an integer.
\<close>

definition binade :: "real \<Rightarrow> int" where
  "binade x = (if 1 \<le> x then bitlen \<lfloor>x\<rfloor> - 1 else - bitlen (\<lceil>1 / x\<rceil> - 1))"

definition pow2 :: "int \<Rightarrow> real" where
  "pow2 k = (if 0 \<le> k then 2 ^ nat k else 1 / 2 ^ nat (- k))"

text \<open>Rounding to 53 significant bits: to the nearest multiple of \<open>pow2 (e - 52)\<close>
  for a number of binary exponent \<open>e\<close>.\<close>

definition f64_round :: "real \<Rightarrow> real" where
  "f64_round x =
     (if x = 0 then 0
      else of_int (round_half_even (x / pow2 (binade \<bar>x\<bar> - 52))) * pow2 (binade \<bar>x\<bar> - 52))"

definition f64_add :: "real \<Rightarrow> real \<Rightarrow> real" where
  "f64_add x y = f64_round (x + y)"

definition f64_sub :: "real \<Rightarrow> real \<Rightarrow> real" where
  "f64_sub x y = f64_round (x - y)"

definition f64_mul :: "real \<Rightarrow> real \<Rightarrow> real" where
  "f64_mul x y = f64_round (x * y)"

definition f64_div :: "real \<Rightarrow> real \<Rightarrow> real" where
  "f64_div x y = f64_round (x / y)"

text \<open>
  \<^verbatim>\<open>self.smoothing_factor * self.last_lane_center + (1 - self.smoothing_factor) * lane_center\<close>
  as Python evaluates it: four operations, each rounded.
\<close>

definition blend_f64 :: "real \<Rightarrow> real \<Rightarrow> real \<Rightarrow> real" where
  "blend_f64 factor previous new =
     f64_add (f64_mul factor previous) (f64_mul (f64_sub 1 factor) new)"

definition smoothed_center_f64 :: "LaneDetector \<Rightarrow> real option \<Rightarrow> real option" where
  "smoothed_center_f64 self estimate =
     (case (estimate, last_lane_center self) of
        (Some new, Some previous) \<Rightarrow> Some (blend_f64 (smoothing_factor self) previous new)
      | _ \<Rightarrow> estimate)"

text \<open>
  The smoothing steps of \<^verbatim>\<open>_calculate_drift\<close> (blend, then update of
  \<^verbatim>\<open>last_lane_center\<close> or fallback) in binary64, from this frame's estimate to the
  accepted centre.
\<close>

definition temporal_smoother_f64 :: "LaneDetector \<Rightarrow> real option \<Rightarrow> real \<Rightarrow> LaneDetector \<times> real"
  where
  "temporal_smoother_f64 self estimate center_of_image =
     accept_center self (smoothed_center_f64 self estimate) center_of_image"

text \<open>The same estimate \<open>E\<close> supplied on \<open>n\<close> frames; the accepted centres in order.\<close>

fun hold_f64 :: "nat \<Rightarrow> LaneDetector \<Rightarrow> real \<Rightarrow> real \<Rightarrow> LaneDetector \<times> real list" where
  "hold_f64 0 self E center_of_image = (self, [])"
| "hold_f64 (Suc n) self E center_of_image =
     (case temporal_smoother_f64 self (Some E) center_of_image of
        (self', accepted) \<Rightarrow>
          (case hold_f64 n self' E center_of_image of
             (final, later) \<Rightarrow> (final, accepted # later)))"

subsection \<open>The audio sink's configuration (\<^verbatim>\<open>audio_alert.py\<close>)\<close>

record AudioAlert =
  frequency :: int
  duration :: real
  volume :: real
  sample_rate :: int
  alert_cooldown :: real
  last_alert_time :: real
  is_initialized :: bool
  stop_alert :: bool

text \<open>
  \<^verbatim>\<open>AudioAlert.__init__\<close>; the last argument says whether \<^verbatim>\<open>pygame.mixer.init\<close>
  succeeded.
\<close>

definition AudioAlert_init :: "int \<Rightarrow> real \<Rightarrow> real \<Rightarrow> int \<Rightarrow> real \<Rightarrow> bool \<Rightarrow> AudioAlert" where
  "AudioAlert_init freq dur vol rate cooldown mixer_ok =
     \<lparr>frequency = freq, duration = dur, volume = max 0.0 (min 1.0 vol), sample_rate = rate,
      alert_cooldown = cooldown, last_alert_time = 0, is_initialized = mixer_ok,
      stop_alert = False\<rparr>"

definition create_audio_alert :: "int \<Rightarrow> real \<Rightarrow> real \<Rightarrow> real \<Rightarrow> bool \<Rightarrow> AudioAlert" where
  "create_audio_alert freq dur vol cooldown mixer_ok =
     AudioAlert_init freq dur vol 44100 cooldown mixer_ok"

definition update_volume :: "AudioAlert \<Rightarrow> real \<Rightarrow> AudioAlert" where
  "update_volume self new_volume = self\<lparr>volume := max 0.0 (min 1.0 new_volume)\<rparr>"



subsection \<open>The departure alert state machine (\<^verbatim>\<open>LaneDepartureAlert\<close>)\<close>

text \<open>The calls \<^verbatim>\<open>process_departure\<close> makes on the audio sink.\<close>

datatype command = PlayBeep | PlayContinuousAlert real | StopContinuousAlert

record LaneDepartureAlert =
  last_departure_state :: bool
  departure_start_time :: "real option"
  continuous_alert_threshold :: real

definition LaneDepartureAlert_init :: LaneDepartureAlert where
  "LaneDepartureAlert_init =
     \<lparr>last_departure_state = False, departure_start_time = None,
      continuous_alert_threshold = 2.0\<rparr>"

text \<open>
  \<^verbatim>\<open>process_departure\<close>. \<open>current_time\<close> is the value of \<^verbatim>\<open>time.time()\<close> and
  \<open>thread_alive\<close> the value of
  \<^verbatim>\<open>self.audio_alert.alert_thread and self.audio_alert.alert_thread.is_alive()\<close> at the call.
  The result is the updated machine and the sink calls made, in order.
\<close>

definition process_departure ::
  "LaneDepartureAlert \<Rightarrow> bool \<Rightarrow> real \<Rightarrow> bool \<Rightarrow> LaneDepartureAlert \<times> command list" where
  "process_departure self is_departing current_time thread_alive =
     (case
        (if is_departing then
           (if \<not> last_departure_state self
            then (self\<lparr>departure_start_time := Some current_time\<rparr>, [PlayBeep])
            else if truthy (departure_start_time self)
                    \<and> (case departure_start_time self of
                          Some started \<Rightarrow> current_time - started > continuous_alert_threshold self
                        | None \<Rightarrow> False)
            then (if \<not> thread_alive then (self, [PlayContinuousAlert 5.0]) else (self, []))
            else (self, []))
         else
           (if last_departure_state self
            then (self\<lparr>departure_start_time := None\<rparr>, [StopContinuousAlert])
            else (self, [])))
      of (self', commands) \<Rightarrow> (self'\<lparr>last_departure_state := is_departing\<rparr>, commands))"

text \<open>
  The machine driven once per frame; a frame is the departure flag, the clock and the
  liveness of the sink's thread. The result lists the commands of each frame.
\<close>

type_synonym alert_frame = "bool \<times> real \<times> bool"

fun drive :: "LaneDepartureAlert \<Rightarrow> alert_frame list \<Rightarrow> LaneDepartureAlert \<times> command list list"
  where
  "drive self [] = (self, [])"
| "drive self ((is_departing, current_time, thread_alive) # rest) =
     (case process_departure self is_departing current_time thread_alive of
        (self', commands) \<Rightarrow>
          (case drive self' rest of (final, later) \<Rightarrow> (final, commands # later)))"

subsection \<open>The main loop (\<^verbatim>\<open>OpenLKAS.run\<close>)\<close>

record OpenLKAS =
  threshold :: real
  show_display :: bool
  lane_detector :: LaneDetector
  audio_alert :: AudioAlert
  departure_alert :: LaneDepartureAlert
  frame_count :: nat

text \<open>
  What one iteration of the loop reads from outside: the pair returned by
  \<^verbatim>\<open>camera.get_frame()\<close>, the clock, the liveness of the sink's thread and the key returned
  by \<^verbatim>\<open>cv2.waitKey(1) & 0xFF\<close>.
\<close>

datatype pressed = KeyQ | KeyT | KeyV | KeyOther

record tick =
  cam_ret :: bool
  cam_frame :: "frame option"
  clock :: real
  sink_thread_alive :: bool
  pressed_key :: pressed

datatype flow = Continue | Break

definition handle_key :: "OpenLKAS \<Rightarrow> pressed \<Rightarrow> OpenLKAS \<times> flow" where
  "handle_key self k =
     (case k of
        KeyQ \<Rightarrow> (self, Break)
      | KeyT \<Rightarrow>
          (let new_threshold = (if threshold self < 100 then threshold self + 10 else 20)
           in (self\<lparr>lane_detector := update_threshold (lane_detector self) new_threshold,
                    threshold := new_threshold\<rparr>, Continue))
      | KeyV \<Rightarrow>
          (let new_volume = (if volume (audio_alert self) > 0.5 then 0.0 else 0.5)
           in (self\<lparr>audio_alert := update_volume (audio_alert self) new_volume\<rparr>, Continue))
      | KeyOther \<Rightarrow> (self, Continue))"

text \<open>
  The body of \<^verbatim>\<open>while self.running\<close>: a failed capture is logged and the iteration ends
  with \<^verbatim>\<open>continue\<close>.
\<close>

definition loop_body :: "OpenLKAS \<Rightarrow> tick \<Rightarrow> OpenLKAS \<times> command list \<times> flow" where
  "loop_body self t =
     (if \<not> cam_ret t then (self, [], Continue)
      else
        (case detect_lanes (lane_detector self) (cam_frame t) of
           (detector', detection_result) \<Rightarrow>
             (case process_departure (departure_alert self) (off_lane detection_result)
                     (clock t) (sink_thread_alive t) of
                (alert', commands) \<Rightarrow>
                  (let self' = self\<lparr>lane_detector := detector', departure_alert := alert',
                                     frame_count := frame_count self + 1\<rparr>
                   in if show_display self' \<and> processed_frame detection_result \<noteq> None
                      then (case handle_key self' (pressed_key t) of
                              (self'', fl) \<Rightarrow> (self'', commands, fl))
                      else (self', commands, Continue)))))"

fun run_loop :: "OpenLKAS \<Rightarrow> tick list \<Rightarrow> OpenLKAS \<times> command list" where
  "run_loop self [] = (self, [])"
| "run_loop self (t # ts) =
     (case loop_body self t of
        (self', commands, Break) \<Rightarrow> (self', commands)
      | (self', commands, Continue) \<Rightarrow>
          (case run_loop self' ts of (final, later) \<Rightarrow> (final, commands @ later)))"

section \<open>Properties\<close>

subsection \<open>The lane-centre estimator\<close>

lemma separate_lines_filter:
  "separate_lines ls l r = (l @ left_set ls, r @ right_set ls)"
proof (induction ls arbitrary: l r)
  case Nil
  show ?case by (simp add: left_set_def right_set_def)
next
  case (Cons s ls)
  obtain x1 y1 x2 y2 where s: "s = (x1, y1, x2, y2)"
    by (cases s)
  show ?case
  proof (cases "x2 = x1")
    case True
    then show ?thesis
      using Cons.IH
      by (simp add: s left_set_def right_set_def discarded_def vertical_def Let_def)
  next
    case False
    then show ?thesis
      using Cons.IH
      by (auto simp: s left_set_def right_set_def discarded_def vertical_def
          finite_slope_def Let_def)
  qed
qed

lemma extend_x_coords_sum:
  "sum_list (extend_x_coords side acc) = sum_list acc + (\<Sum>(x1, y1, x2, y2) \<leftarrow> side. x1 + x2)"
  by (induction side acc rule: extend_x_coords.induct) simp_all

lemma extend_x_coords_length:
  "length (extend_x_coords side acc) = length acc + 2 * length side"
  by (induction side acc rule: extend_x_coords.induct) simp_all

lemma side_center_mean:
  "side_center side = (if side \<noteq> [] then Some (endpoint_mean side) else None)"
  by (simp add: side_center_def np_mean_def endpoint_mean_def
      extend_x_coords_sum extend_x_coords_length)

lemma lane_center_refines:
  "calculate_lane_center (Some ls) w = estimator_spec ls"
  by (cases ls)
    (simp_all add: calculate_lane_center_def estimator_spec_def separate_lines_filter
      side_center_mean left_set_def right_set_def)

lemmas estimator_eval =
  estimator_spec_def left_set_def right_set_def discarded_def vertical_def finite_slope_def
  endpoint_mean_def

lemma estimate_left_300: "estimator_spec [(350, 200, 250, 300)] = Some 400"
  by (simp add: estimator_eval)

text \<open>
  Claim C1. \<^verbatim>\<open>calculate_lane_center\<close> computes the estimator of the specification: absent
  for absent or empty input, otherwise the midpoint of the two side means, the left mean plus
  100, the right mean minus 100, or absent, by which sides are non-empty after the slope
  filter. The slope the code computes is the quotient \<open>(y2 - y1) / (x2 - x1)\<close>, and
  \<open>+\<infinity>\<close> when \<open>x1 = x2\<close>. The examples of the specification: a left segment with mean end
  point 300 gives 400, a right segment with mean 700 gives 600, both together give 500.
  The filter: a segment of slope 0.05, one of slope 100 / 201, a vertical one and one of
  slope 20 are each discarded, alone (no result) and next to kept segments (no effect on the
  means); segments of slope exactly 0.5, 2 and -0.5 are kept.
\<close>

theorem C1_lane_center_estimator:
  "calculate_lane_center None image_width = None
   \<and> calculate_lane_center (Some []) image_width = None
   \<and> calculate_lane_center (Some ls) image_width = estimator_spec ls
   \<and> slope_of (x1, y1, x2, y2) =
       (if x1 = x2 then Inf
        else Finite ((real_of_int y2 - real_of_int y1) / (real_of_int x2 - real_of_int x1)))
   \<and> calculate_lane_center (Some [(350, 200, 250, 300)]) 1280 = Some 400
   \<and> calculate_lane_center (Some [(650, 200, 750, 300)]) 1280 = Some 600
   \<and> calculate_lane_center (Some [(350, 200, 250, 300), (650, 200, 750, 300)]) 1280 = Some 500
   \<and> calculate_lane_center (Some [(100, 200, 300, 210)]) 1280 = None
   \<and> calculate_lane_center (Some [(0, 0, 201, 100)]) 1280 = None
   \<and> calculate_lane_center (Some [(100, 100, 100, 300)]) 1280 = None
   \<and> calculate_lane_center (Some [(100, 100, 110, 300)]) 1280 = None
   \<and> calculate_lane_center (Some [(0, 0, 200, 100)]) 1280 = Some 0
   \<and> calculate_lane_center (Some [(0, 0, 100, 200)]) 1280 = Some (- 50)
   \<and> calculate_lane_center (Some [(200, 0, 0, 100)]) 1280 = Some 200
   \<and> calculate_lane_center
        (Some [(100, 200, 300, 210), (350, 200, 250, 300), (100, 100, 100, 300),
               (650, 200, 750, 300), (100, 100, 110, 300)]) 1280 = Some 500"
proof -
  have n1: "calculate_lane_center None image_width = None"
    by (simp add: calculate_lane_center_def)
  have e0: "estimator_spec [] = None"
    by (simp add: estimator_eval)
  have sl: "slope_of (x1, y1, x2, y2) =
       (if x1 = x2 then Inf
        else Finite ((real_of_int y2 - real_of_int y1) / (real_of_int x2 - real_of_int x1)))"
    by auto
  have e1: "estimator_spec [(350, 200, 250, 300)] = Some 400"
    by (rule estimate_left_300)
  have e2: "estimator_spec [(650, 200, 750, 300)] = Some 600"
    by (simp add: estimator_eval)
  have e3: "estimator_spec [(350, 200, 250, 300), (650, 200, 750, 300)] = Some 500"
    by (simp add: estimator_eval)
  have d1: "estimator_spec [(100, 200, 300, 210)] = None"
    by (simp add: estimator_eval)
  have d2: "estimator_spec [(0, 0, 201, 100)] = None"
    by (simp add: estimator_eval)
  have d3: "estimator_spec [(100, 100, 100, 300)] = None"
    by (simp add: estimator_eval)
  have d4: "estimator_spec [(100, 100, 110, 300)] = None"
    by (simp add: estimator_eval)
  have k1: "estimator_spec [(0, 0, 200, 100)] = Some 0"
    by (simp add: estimator_eval)
  have k2: "estimator_spec [(0, 0, 100, 200)] = Some (- 50)"
    by (simp add: estimator_eval)
  have k3: "estimator_spec [(200, 0, 0, 100)] = Some 200"
    by (simp add: estimator_eval)
  have m: "estimator_spec [(100, 200, 300, 210), (350, 200, 250, 300), (100, 100, 100, 300),
               (650, 200, 750, 300), (100, 100, 110, 300)] = Some 500"
    by (simp add: estimator_eval)
  show ?thesis
    unfolding lane_center_refines n1 e0 e1 e2 e3 d1 d2 d3 d4 k1 k2 k3 m
    using sl by simp
qed

subsection \<open>Offset and departure\<close>

text \<open>
  Claim C4. \<^verbatim>\<open>calculate_center_offset\<close> is the difference of its arguments and
  \<^verbatim>\<open>is_lane_departure\<close> is the strict comparison of the offset's magnitude with the
  threshold, so that an offset of exactly the threshold is no departure; both are total
  functions of their arguments alone. The examples of the specification are included.
\<close>

theorem C4_offset_and_departure:
  "calculate_center_offset lc ic = lc - ic
   \<and> is_lane_departure off th = (\<bar>off\<bar> > th)
   \<and> \<not> is_lane_departure th \<bar>th\<bar>
   \<and> \<not> is_lane_departure (- th) \<bar>th\<bar>
   \<and> calculate_center_offset 100 50 = 50
   \<and> is_lane_departure 60 50
   \<and> \<not> is_lane_departure 30 50
   \<and> \<not> is_lane_departure 50 50"
  by (simp add: calculate_center_offset_def is_lane_departure_def)

subsection \<open>The accepted centre when the estimate is absent\<close>

lemma accept_center_absent:
  "accept_center self None c =
     (self, case last_lane_center self of None \<Rightarrow> c | Some l \<Rightarrow> if l = 0 then c else l)"
  by (simp add: accept_center_def truthy_def split: option.splits)

lemma accept_center_present:
  "accept_center self (Some x) c = (self\<lparr>last_lane_center := Some x\<rparr>, x)"
  by (simp add: accept_center_def)

text \<open>
  With no usable segments the detector is returned as it was, and the accepted centre is the
  previous centre when that is a non-zero number, the image centre otherwise.
\<close>

lemma calculate_drift_absent:
  assumes "ls = None \<or> calculate_lane_center ls (frame_width fr) = None"
  shows "fst (calculate_drift self fr ls) = self"
    and "lane_center (snd (calculate_drift self fr ls)) =
      Some (case last_lane_center self of
              None \<Rightarrow> real_of_int (frame_width fr) / 2
            | Some l \<Rightarrow> if l = 0 then real_of_int (frame_width fr) / 2 else l)"
  using assms
  by (auto simp: calculate_drift_def Let_def smoothed_center_def accept_center_absent
      split: option.splits)

text \<open>Once set, \<^verbatim>\<open>last_lane_center\<close> is never \<^verbatim>\<open>None\<close> again.\<close>

lemma last_lane_center_sticky:
  "last_lane_center self \<noteq> None \<Longrightarrow>
   last_lane_center (fst (detect_lanes self fo)) \<noteq> None"
  by (auto simp: detect_lanes_def calculate_drift_def Let_def smoothed_center_def
      accept_center_def split: option.splits prod.splits cv_result.splits)

lemma estimate_right_100: "estimator_spec [(50, 0, 150, 100)] = Some 0"
  by (simp add: estimator_eval)

text \<open>
  Claim C3, at a previous centre of \<open>0.0\<close>. A first frame whose only segment is a right
  line with mean end point 100 is accepted at \<open>100 - 100 = 0.0\<close>, which sets
  \<^verbatim>\<open>last_lane_center\<close> to \<open>0.0\<close>. On the next frame no line is found: the accepted centre
  is the image centre 640, not the previous centre 0.0, because \<^verbatim>\<open>0.0\<close> is false in
  \<^verbatim>\<open>self.last_lane_center if self.last_lane_center else image_center\<close>.
\<close>

theorem C3_zero_center_dropped:
  "(case detect_lanes (create_lane_detector 50)
          (Some \<lparr>frame_width = 1280, cv_lines = CvLines (Some [(50, 0, 150, 100)]),
                 overlay_raises = False\<rparr>) of
      (d1, r1) \<Rightarrow>
        (case detect_lanes d1
                (Some \<lparr>frame_width = 1280, cv_lines = CvLines None, overlay_raises = False\<rparr>) of
           (d2, r2) \<Rightarrow>
             last_lane_center d1 = Some 0 \<and> lane_center r1 = Some 0
             \<and> lane_center r2 = Some 640 \<and> lane_center r2 \<noteq> last_lane_center d1
             \<and> last_lane_center d2 = Some 0))"
  by (simp add: detect_lanes_def calculate_drift_def Let_def create_lane_detector_def
      lane_center_refines estimate_right_100 smoothed_center_def accept_center_absent
      accept_center_present calculate_center_offset_def is_lane_departure_def)

subsection \<open>Configuration updates\<close>

lemma calculate_drift_off_lane:
  "off_lane (snd (calculate_drift self fr ls)) =
     (\<bar>offset (snd (calculate_drift self fr ls))\<bar> > departure_threshold self)"
  by (simp add: calculate_drift_def Let_def accept_center_def is_lane_departure_def
      split: option.splits prod.splits)

lemma calculate_drift_threshold_irrelevant:
  "offset (snd (calculate_drift (update_threshold self t) fr ls)) =
     offset (snd (calculate_drift self fr ls))"
  "lane_center (snd (calculate_drift (update_threshold self t) fr ls)) =
     lane_center (snd (calculate_drift self fr ls))"
  by (simp_all add: calculate_drift_def Let_def accept_center_def update_threshold_def
      smoothed_center_def split: option.splits prod.splits)



lemma calculate_drift_not_empty: "snd (calculate_drift self fr ls) \<noteq> empty_result"
proof
  assume "snd (calculate_drift self fr ls) = empty_result"
  then have "lane_center (snd (calculate_drift self fr ls)) = lane_center empty_result"
    by simp
  then show False
    by (simp add: calculate_drift_def Let_def empty_result_def split: prod.splits)
qed




text \<open>
  Claim C8. After \<^verbatim>\<open>update_threshold(t)\<close> the detector's threshold is \<open>t\<close> and nothing
  else of the detector has changed; the next classification of an offset, by
  \<^verbatim>\<open>is_lane_departure\<close> directly or inside \<^verbatim>\<open>_calculate_drift\<close>, compares its magnitude with
  \<open>t\<close>, the offset itself being the one the old threshold would have seen. A result
  produced before the update stays classified by the threshold of its time.
\<close>

theorem C8_threshold_round_trip:
  "departure_threshold (update_threshold self t) = t
   \<and> last_lane_center (update_threshold self t) = last_lane_center self
   \<and> smoothing_factor (update_threshold self t) = smoothing_factor self
   \<and> is_lane_departure off (departure_threshold (update_threshold self t)) = (\<bar>off\<bar> > t)
   \<and> offset (snd (calculate_drift (update_threshold self t) fr ls)) =
       offset (snd (calculate_drift self fr ls))
   \<and> off_lane (snd (calculate_drift (update_threshold self t) fr ls)) =
       (\<bar>offset (snd (calculate_drift self fr ls))\<bar> > t)
   \<and> departure_threshold (update_threshold (fst (calculate_drift self fr0 ls0)) t) = t
   \<and> off_lane (snd (calculate_drift self fr0 ls0)) =
       (\<bar>offset (snd (calculate_drift self fr0 ls0))\<bar> > departure_threshold self)"
proof -
  have a: "departure_threshold (update_threshold self t) = t" for self
    by (simp add: update_threshold_def)
  have b: "off_lane (snd (calculate_drift (update_threshold self t) fr ls)) =
       (\<bar>offset (snd (calculate_drift self fr ls))\<bar> > t)"
    using calculate_drift_off_lane [of "update_threshold self t" fr ls]
    by (simp add: a calculate_drift_threshold_irrelevant)
  have c: "off_lane (snd (calculate_drift self fr0 ls0)) =
      (\<bar>offset (snd (calculate_drift self fr0 ls0))\<bar> > departure_threshold self)"
    by (rule calculate_drift_off_lane)
  show ?thesis
    using b c
    by (simp add: a calculate_drift_threshold_irrelevant is_lane_departure_def)
      (simp add: update_threshold_def)
qed

subsection \<open>The blend under a constant estimate\<close>

text \<open>In exact arithmetic the blend of \<open>E\<close> with \<open>E\<close> is \<open>E\<close>, whatever the factor.\<close>

lemma blend_same: "blend factor E E = E"
  by (simp add: blend_def algebra_simps)

lemma calculate_drift_same_estimate:
  assumes "last_lane_center self = Some E" "ls \<noteq> None"
    "calculate_lane_center ls (frame_width fr) = Some E"
  shows "fst (calculate_drift self fr ls) = self"
    and "lane_center (snd (calculate_drift self fr ls)) = Some E"
  using assms
  by (simp_all add: calculate_drift_def Let_def smoothed_center_def blend_same
      accept_center_present)

lemma feed_same_estimate:
  assumes "last_lane_center self = Some E"
    and "\<forall>(fr, ls) \<in> set frames. ls \<noteq> None \<and> calculate_lane_center ls (frame_width fr) = Some E"
  shows "fst (feed self frames) = self
    \<and> map lane_center (snd (feed self frames)) = replicate (length frames) (Some E)"
  using assms(2)
proof (induction frames)
  case Nil
  show ?case by simp
next
  case (Cons f frames)
  obtain fr ls where f: "f = (fr, ls)" by (cases f)
  have h: "ls \<noteq> None" "calculate_lane_center ls (frame_width fr) = Some E"
    using Cons.prems f by simp_all
  obtain r where r: "calculate_drift self fr ls = (self, r)" and c: "lane_center r = Some E"
    using calculate_drift_same_estimate [OF assms(1) h]
    by (cases "calculate_drift self fr ls") simp
  have "fst (feed self frames) = self
    \<and> map lane_center (snd (feed self frames)) = replicate (length frames) (Some E)"
    using Cons by simp
  then show ?case
    by (cases "feed self frames") (simp add: f r c)
qed

text \<open>
  Rounding to binary64 moves a number by at most the fraction \<open>1 / 2 ^ 53\<close> of its
  magnitude.
\<close>

lemma pow2_powi: "pow2 k = 2 powi k"
  by (simp add: pow2_def power_int_def inverse_eq_divide power_one_over)

lemma pow2_pos: "0 < pow2 k"
  by (simp add: pow2_def)

lemma pow2_diff: "pow2 (k - 52) = pow2 k / 2 ^ 52"
  by (simp add: pow2_powi power_int_diff)

lemma binade_lower:
  assumes "0 < a"
  shows "pow2 (binade a) \<le> a"
proof (cases "1 \<le> a")
  case True
  then have pos: "0 < \<lfloor>a\<rfloor>" by linarith
  have nn: "0 \<le> bitlen \<lfloor>a\<rfloor> - 1"
    using pos bitlen_eq_zero_iff [of "\<lfloor>a\<rfloor>"] bitlen_nonneg [of "\<lfloor>a\<rfloor>"] by linarith
  have "(2::int) ^ nat (bitlen \<lfloor>a\<rfloor> - 1) \<le> \<lfloor>a\<rfloor>"
    using bitlen_bounds [OF pos] by simp
  then have "(2::real) ^ nat (bitlen \<lfloor>a\<rfloor> - 1) \<le> of_int \<lfloor>a\<rfloor>"
    by (metis of_int_le_iff of_int_numeral of_int_power)
  also have "\<dots> \<le> a" by simp
  finally show ?thesis
    using True nn by (simp add: binade_def pow2_def)
next
  case False
  define n where "n = \<lceil>1 / a\<rceil> - 1"
  have inv: "1 < 1 / a" using assms False by simp
  then have n1: "1 \<le> n" unfolding n_def by linarith
  then have pos: "0 < n" by simp
  have b1: "1 \<le> bitlen n"
    using pos bitlen_eq_zero_iff [of n] bitlen_nonneg [of n] by linarith
  have "n < 2 ^ nat (bitlen n)"
    using bitlen_bounds [OF pos] by simp
  then have "n + 1 \<le> 2 ^ nat (bitlen n)" by simp
  then have "of_int (n + 1) \<le> (2::real) ^ nat (bitlen n)"
    by (metis of_int_le_iff of_int_numeral of_int_power)
  moreover have "1 / a \<le> of_int (n + 1)"
    unfolding n_def by simp
  ultimately have "1 / a \<le> 2 ^ nat (bitlen n)" by linarith
  then have "1 / 2 ^ nat (bitlen n) \<le> a"
    using assms by (simp add: field_simps)
  then show ?thesis
    using False b1 by (simp add: binade_def pow2_def n_def)
qed

lemma binade_upper:
  assumes "0 < a"
  shows "a < pow2 (binade a + 1)"
proof (cases "1 \<le> a")
  case True
  then have pos: "0 < \<lfloor>a\<rfloor>" by linarith
  have nn: "0 \<le> bitlen \<lfloor>a\<rfloor>"
    by (rule bitlen_nonneg)
  have "\<lfloor>a\<rfloor> + 1 \<le> 2 ^ nat (bitlen \<lfloor>a\<rfloor>)"
    using bitlen_bounds [OF pos] by simp
  then have "of_int (\<lfloor>a\<rfloor> + 1) \<le> (2::real) ^ nat (bitlen \<lfloor>a\<rfloor>)"
    by (metis of_int_le_iff of_int_numeral of_int_power)
  moreover have "a < of_int (\<lfloor>a\<rfloor> + 1)" by linarith
  ultimately have "a < 2 ^ nat (bitlen \<lfloor>a\<rfloor>)" by linarith
  then show ?thesis
    using True nn by (simp add: binade_def pow2_def)
next
  case False
  define n where "n = \<lceil>1 / a\<rceil> - 1"
  have inv: "1 < 1 / a" using assms False by simp
  then have n1: "1 \<le> n" unfolding n_def by linarith
  then have pos: "0 < n" by simp
  have b1: "1 \<le> bitlen n"
    using pos bitlen_eq_zero_iff [of n] bitlen_nonneg [of n] by linarith
  have "2 ^ nat (bitlen n - 1) \<le> n"
    using bitlen_bounds [OF pos] by simp
  then have "(2::real) ^ nat (bitlen n - 1) \<le> of_int n"
    by (metis of_int_le_iff of_int_numeral of_int_power)
  moreover have "of_int n < 1 / a"
    unfolding n_def by linarith
  ultimately have "2 ^ nat (bitlen n - 1) < 1 / a" by linarith
  then have lt: "a < 1 / 2 ^ nat (bitlen n - 1)"
    using assms by (simp add: field_simps)
  show ?thesis
  proof (cases "bitlen n = 1")
    case True
    then show ?thesis
      using lt False by (simp add: binade_def pow2_def n_def)
  next
    case False
    then have "- bitlen n + 1 < 0" using b1 by simp
    moreover have "nat (- (- bitlen n + 1)) = nat (bitlen n - 1)" by simp
    ultimately show ?thesis
      using lt \<open>\<not> 1 \<le> a\<close> by (simp add: binade_def pow2_def n_def)
  qed
qed

lemma round_half_even_error: "\<bar>of_int (round_half_even y) - y\<bar> \<le> 1 / 2"
proof -
  have "of_int \<lfloor>y\<rfloor> \<le> y" "y < of_int \<lfloor>y\<rfloor> + 1" by linarith+
  then show ?thesis
    by (auto simp: round_half_even_def Let_def)
qed

lemma f64_round_error: "\<bar>f64_round x - x\<bar> \<le> \<bar>x\<bar> / 2 ^ 53"
proof (cases "x = 0")
  case True
  then show ?thesis by (simp add: f64_round_def)
next
  case False
  define q where "q = pow2 (binade \<bar>x\<bar> - 52)"
  have q: "0 < q" by (simp add: q_def pow2_pos)
  have ql: "q * 2 ^ 52 \<le> \<bar>x\<bar>"
    using binade_lower [of "\<bar>x\<bar>"] False by (simp add: q_def pow2_diff)
  have "f64_round x - x = (of_int (round_half_even (x / q)) - x / q) * q"
    using False q by (simp add: f64_round_def q_def [symmetric] left_diff_distrib)
  then have "\<bar>f64_round x - x\<bar> = \<bar>of_int (round_half_even (x / q)) - x / q\<bar> * q"
    using q by (simp add: abs_mult)
  also have "\<dots> \<le> 1 / 2 * q"
    using round_half_even_error [of "x / q"] q by (intro mult_right_mono) simp_all
  also have "\<dots> \<le> \<bar>x\<bar> / 2 ^ 53"
    using ql by simp
  finally show ?thesis .
qed

text \<open>
  The float literal \<^verbatim>\<open>0.7\<close> and \<^verbatim>\<open>1 - 0.7\<close>; the subtraction is exact.
\<close>

lemma f64_0_7: "f64_round (7 / 10) = 3152519739159347 / 4503599627370496"
  by (simp add: f64_round_def binade_def pow2_def round_half_even_def bitlen_def
      compute_floorlog Let_def)

lemma f64_0_3: "f64_sub 1 (3152519739159347 / 4503599627370496) = 1351079888211149 / 4503599627370496"
  by (simp add: f64_sub_def f64_round_def binade_def pow2_def round_half_even_def bitlen_def
      compute_floorlog Let_def)

text \<open>
  One blend of a previous centre within \<open>7 * \<bar>E\<bar> / 2 ^ 53\<close> of \<open>E\<close> with the estimate
  \<open>E\<close> is again within that distance: the three rounding errors and \<open>0.7\<close> times the old
  distance add up to less than the bound.
\<close>

lemma blend_arith:
  fixes a1 a2 a3 P X M d :: real
  assumes "X \<le> M + d"
    and "a1 \<le> 3152519739159347 / 4503599627370496 * X / 9007199254740992"
    and "a2 \<le> 1351079888211149 / 4503599627370496 * M / 9007199254740992"
    and "P \<le> a1 + a2 + M + 3152519739159347 / 4503599627370496 * d"
    and "a3 \<le> P / 9007199254740992"
    and "d \<le> 7 * M / 9007199254740992"
    and "0 \<le> M"
  shows "a3 + a1 + a2 + 3152519739159347 / 4503599627370496 * d \<le> 7 * M / 9007199254740992"
  using assms by linarith

lemma blend_f64_step:
  assumes near: "\<bar>x - E\<bar> \<le> 7 * \<bar>E\<bar> / 2 ^ 53"
  shows "\<bar>blend_f64 (f64_round (7 / 10)) x E - E\<bar> \<le> 7 * \<bar>E\<bar> / 2 ^ 53"
proof -
  define S :: real where "S = 3152519739159347 / 4503599627370496"
  define T :: real where "T = 1351079888211149 / 4503599627370496"
  define p1 where "p1 = f64_round (S * x)"
  define p2 where "p2 = f64_round (T * E)"
  define r where "r = f64_round (p1 + p2)"
  define k where "k = S * (x - E)"
  have bl: "blend_f64 (f64_round (7 / 10)) x E = r"
    by (simp add: blend_f64_def f64_0_7 f64_0_3 f64_add_def f64_mul_def r_def p1_def p2_def
        S_def T_def)
  have S0: "0 \<le> S" and T0: "0 \<le> T" and T: "T = 1 - S"
    by (simp_all add: S_def T_def)
  have e1: "\<bar>p1 - S * x\<bar> \<le> S * \<bar>x\<bar> / 2 ^ 53"
    using f64_round_error [of "S * x"] S0 by (simp add: p1_def abs_mult)
  have e2: "\<bar>p2 - T * E\<bar> \<le> T * \<bar>E\<bar> / 2 ^ 53"
    using f64_round_error [of "T * E"] T0 by (simp add: p2_def abs_mult)
  have e3: "\<bar>r - (p1 + p2)\<bar> \<le> \<bar>p1 + p2\<bar> / 2 ^ 53"
    using f64_round_error [of "p1 + p2"] by (simp add: r_def)
  have k: "\<bar>k\<bar> = S * \<bar>x - E\<bar>"
    using S0 by (simp add: k_def abs_mult)
  have sum: "p1 + p2 = (p1 - S * x) + (p2 - T * E) + E + k"
    unfolding T k_def by (simp add: algebra_simps)
  have res: "r - E = (r - (p1 + p2)) + (p1 - S * x) + (p2 - T * E) + k"
    unfolding T k_def by (simp add: algebra_simps)
  have t1: "\<bar>x\<bar> \<le> \<bar>E\<bar> + \<bar>x - E\<bar>"
    by linarith
  have t2: "\<bar>p1 + p2\<bar> \<le> \<bar>p1 - S * x\<bar> + \<bar>p2 - T * E\<bar> + \<bar>E\<bar> + S * \<bar>x - E\<bar>"
    unfolding k [symmetric] by (subst sum) linarith
  have t3: "\<bar>r - E\<bar> \<le> \<bar>r - (p1 + p2)\<bar> + \<bar>p1 - S * x\<bar> + \<bar>p2 - T * E\<bar> + S * \<bar>x - E\<bar>"
    unfolding k [symmetric] by (subst res) linarith
  have "\<bar>r - (p1 + p2)\<bar> + \<bar>p1 - S * x\<bar> + \<bar>p2 - T * E\<bar> + S * \<bar>x - E\<bar>
      \<le> 7 * \<bar>E\<bar> / 9007199254740992"
    unfolding S_def
  proof (rule blend_arith)
    show "\<bar>x\<bar> \<le> \<bar>E\<bar> + \<bar>x - E\<bar>" by (rule t1)
    show "\<bar>p1 - 3152519739159347 / 4503599627370496 * x\<bar>
        \<le> 3152519739159347 / 4503599627370496 * \<bar>x\<bar> / 9007199254740992"
      using e1 by (simp add: S_def)
    show "\<bar>p2 - T * E\<bar> \<le> 1351079888211149 / 4503599627370496 * \<bar>E\<bar> / 9007199254740992"
      using e2 by (simp add: T_def)
    show "\<bar>p1 + p2\<bar> \<le> \<bar>p1 - 3152519739159347 / 4503599627370496 * x\<bar> + \<bar>p2 - T * E\<bar>
        + \<bar>E\<bar> + 3152519739159347 / 4503599627370496 * \<bar>x - E\<bar>"
      using t2 by (simp add: S_def)
    show "\<bar>r - (p1 + p2)\<bar> \<le> \<bar>p1 + p2\<bar> / 9007199254740992"
      using e3 by simp
    show "\<bar>x - E\<bar> \<le> 7 * \<bar>E\<bar> / 9007199254740992"
      using near by simp
    show "0 \<le> \<bar>E\<bar>" by simp
  qed
  with t3 show ?thesis
    unfolding bl by simp
qed


lemma temporal_smoother_f64_step:
  assumes "last_lane_center self = Some x"
  shows "temporal_smoother_f64 self (Some E) c =
    (self\<lparr>last_lane_center := Some (blend_f64 (smoothing_factor self) x E)\<rparr>,
     blend_f64 (smoothing_factor self) x E)"
  using assms by (simp add: temporal_smoother_f64_def smoothed_center_f64_def accept_center_present)

lemma hold_f64_near:
  assumes "smoothing_factor self = f64_round (7 / 10)"
    and "last_lane_center self = Some x"
    and "\<bar>x - E\<bar> \<le> 7 * \<bar>E\<bar> / 2 ^ 53"
  shows "length (snd (hold_f64 n self E c)) = n
    \<and> list_all (\<lambda>accepted. \<bar>accepted - E\<bar> \<le> 7 * \<bar>E\<bar> / 2 ^ 53) (snd (hold_f64 n self E c))
    \<and> (\<exists>y. last_lane_center (fst (hold_f64 n self E c)) = Some y \<and> \<bar>y - E\<bar> \<le> 7 * \<bar>E\<bar> / 2 ^ 53)"
  using assms
proof (induction n arbitrary: self x)
  case 0
  then show ?case by simp
next
  case (Suc n)
  define y where "y = blend_f64 (smoothing_factor self) x E"
  define self' where "self' = self\<lparr>last_lane_center := Some y\<rparr>"
  have st: "temporal_smoother_f64 self (Some E) c = (self', y)"
    using temporal_smoother_f64_step [OF Suc.prems(2)] by (simp add: self'_def y_def)
  have y: "\<bar>y - E\<bar> \<le> 7 * \<bar>E\<bar> / 2 ^ 53"
    unfolding y_def Suc.prems(1) using Suc.prems(3) by (rule blend_f64_step)
  have s': "smoothing_factor self' = f64_round (7 / 10)" "last_lane_center self' = Some y"
    by (simp_all add: self'_def Suc.prems(1))
  from Suc.IH [OF s' y] y show ?case
    by (cases "hold_f64 n self' E c") (simp add: st)
qed

text \<open>
  Claim C7, as stated, fails in the arithmetic of the code. The estimate
  \<open>E = 228.16666666666666\<close> is what \<^verbatim>\<open>calculate_lane_center\<close> returns for three left
  segments whose six end points sum to 769 (\<^verbatim>\<open>np.mean\<close> gives \<open>769 / 6\<close> rounded, and 100
  is added). With \<^verbatim>\<open>last_lane_center\<close> equal to \<open>E\<close> and the estimate \<open>E\<close> again, the
  accepted centre is \<open>228.16666666666663\<close>, one unit in the last place below \<open>E\<close>, and
  \<^verbatim>\<open>last_lane_center\<close> becomes that number.
\<close>

theorem C7_blend_inexact_in_binary64:
  "f64_add (f64_div 769 6) 100 = 8027900898268501 / 35184372088832
   \<and> temporal_smoother_f64
        \<lparr>departure_threshold = 50, last_lane_center = Some (8027900898268501 / 35184372088832),
         smoothing_factor = f64_round 0.7\<rparr>
        (Some (8027900898268501 / 35184372088832)) 640 =
       (\<lparr>departure_threshold = 50, last_lane_center = Some (2006975224567125 / 8796093022208),
         smoothing_factor = f64_round 0.7\<rparr>,
        2006975224567125 / 8796093022208)
   \<and> (2006975224567125 / 8796093022208 :: real) \<noteq> 8027900898268501 / 35184372088832"
  by (simp add: temporal_smoother_f64_def smoothed_center_f64_def accept_center_present
      blend_f64_def f64_add_def f64_sub_def f64_mul_def f64_div_def f64_round_def binade_def
      pow2_def round_half_even_def bitlen_def compute_floorlog Let_def)

text \<open>
  Claim C7, amended. In exact arithmetic \<open>E\<close> is a fixed point of the blend for every
  smoothing factor: when \<^verbatim>\<open>last_lane_center\<close> is \<open>E\<close> and every frame's estimate is \<open>E\<close>,
  the detector does not change and every accepted centre is \<open>E\<close>. In binary64, with the
  smoothing factor \<^verbatim>\<open>0.7\<close> of the code and \<open>E\<close> in the normal range, the accepted centre of
  every frame and \<^verbatim>\<open>last_lane_center\<close> stay within \<open>7 * \<bar>E\<bar> / 2 ^ 53\<close> of \<open>E\<close>, for any
  number of frames.
\<close>

theorem C7_fixed_point_amended:
  assumes "last_lane_center self = Some E"
    and "\<forall>(fr, ls) \<in> set frames. ls \<noteq> None \<and> calculate_lane_center ls (frame_width fr) = Some E"
    and "smoothing_factor d64 = f64_round 0.7"
    and "last_lane_center d64 = Some E"
    and "1 / 2 ^ 1000 \<le> \<bar>E\<bar>" and "\<bar>E\<bar> \<le> 2 ^ 1000"
  shows "blend (smoothing_factor self) E E = E
    \<and> fst (feed self frames) = self
    \<and> map lane_center (snd (feed self frames)) = replicate (length frames) (Some E)
    \<and> length (snd (hold_f64 n d64 E c)) = n
    \<and> list_all (\<lambda>accepted. \<bar>accepted - E\<bar> \<le> 7 * \<bar>E\<bar> / 2 ^ 53) (snd (hold_f64 n d64 E c))
    \<and> (\<exists>y. last_lane_center (fst (hold_f64 n d64 E c)) = Some y \<and> \<bar>y - E\<bar> \<le> 7 * \<bar>E\<bar> / 2 ^ 53)"
proof -
  have sf: "smoothing_factor d64 = f64_round (7 / 10)"
    using assms(3) by simp
  have near: "\<bar>E - E\<bar> \<le> 7 * \<bar>E\<bar> / 2 ^ 53"
    by simp
  show ?thesis
    using feed_same_estimate [OF assms(1) assms(2)] hold_f64_near [OF sf assms(4) near, of n c]
    by (simp add: blend_same)
qed

text \<open>
  At \<open>E = 400\<close>: a detector whose previous centre is 400 is fed twice the frame of claim
  C1's first example (one left segment with mean end point 300), and the binary64 detector
  holds the estimate 400 for two frames.
\<close>

theorem C7_fixed_point_amended_witness:
  "map lane_center
     (snd (feed \<lparr>departure_threshold = 50, last_lane_center = Some 400, smoothing_factor = 0.7\<rparr>
        [(\<lparr>frame_width = 1280, cv_lines = CvLines (Some [(350, 200, 250, 300)]),
           overlay_raises = False\<rparr>, Some [(350, 200, 250, 300)]),
         (\<lparr>frame_width = 1280, cv_lines = CvLines (Some [(350, 200, 250, 300)]),
           overlay_raises = False\<rparr>, Some [(350, 200, 250, 300)])])) =
     [Some 400, Some 400]
   \<and> length (snd (hold_f64 2
        \<lparr>departure_threshold = 50, last_lane_center = Some 400,
         smoothing_factor = f64_round 0.7\<rparr> 400 640)) = 2
   \<and> list_all (\<lambda>accepted. \<bar>accepted - 400\<bar> \<le> 7 * \<bar>400\<bar> / 2 ^ 53)
        (snd (hold_f64 2
           \<lparr>departure_threshold = 50, last_lane_center = Some 400,
            smoothing_factor = f64_round 0.7\<rparr> 400 640))"
proof -
  let ?self = "\<lparr>departure_threshold = 50, last_lane_center = Some 400, smoothing_factor = 0.7\<rparr>"
  let ?d64 = "\<lparr>departure_threshold = 50, last_lane_center = Some 400,
         smoothing_factor = f64_round 0.7\<rparr>"
  let ?fr = "\<lparr>frame_width = 1280, cv_lines = CvLines (Some [(350, 200, 250, 300)]),
           overlay_raises = False\<rparr>"
  let ?frames = "[(?fr, Some [(350, 200, 250, 300)]), (?fr, Some [(350, 200, 250, 300)])]"
  have h1: "last_lane_center ?self = Some 400" by simp
  have h2: "\<forall>(fr, ls) \<in> set ?frames.
      ls \<noteq> None \<and> calculate_lane_center ls (frame_width fr) = Some 400"
    by (simp add: lane_center_refines estimate_left_300)
  have h3: "smoothing_factor ?d64 = f64_round 0.7" by simp
  have h4: "last_lane_center ?d64 = Some 400" by simp
  have h5: "1 / 2 ^ 1000 \<le> \<bar>400 :: real\<bar>" by simp
  have h6: "\<bar>400 :: real\<bar> \<le> 2 ^ 1000" by simp
  show ?thesis
    using C7_fixed_point_amended [OF h1 h2 h3 h4 h5 h6, of 2 640] by simp
qed

subsection \<open>The alert state machine\<close>

lemma process_departure_start:
  "\<not> last_departure_state s \<Longrightarrow>
   process_departure s True t a =
     (s\<lparr>departure_start_time := Some t, last_departure_state := True\<rparr>, [PlayBeep])"
  by (simp add: process_departure_def)

lemma process_departure_continuing_state:
  "last_departure_state s \<Longrightarrow> fst (process_departure s True t a) = s"
  by (simp add: process_departure_def)

lemma process_departure_quiet:
  "last_departure_state s \<Longrightarrow> departure_start_time s = Some t0 \<Longrightarrow>
   t - t0 \<le> continuous_alert_threshold s \<or> a \<Longrightarrow> process_departure s True t a = (s, [])"
  by (auto simp: process_departure_def)

lemma process_departure_escalate:
  "last_departure_state s \<Longrightarrow> departure_start_time s = Some t0 \<Longrightarrow> t0 \<noteq> 0 \<Longrightarrow>
   t - t0 > continuous_alert_threshold s \<Longrightarrow>
   process_departure s True t False = (s, [PlayContinuousAlert 5])"
  by (simp add: process_departure_def truthy_def)

lemma process_departure_return:
  "last_departure_state s \<Longrightarrow>
   process_departure s False t a =
     (s\<lparr>departure_start_time := None, last_departure_state := False\<rparr>, [StopContinuousAlert])"
  by (simp add: process_departure_def)

lemma process_departure_last:
  "last_departure_state (fst (process_departure s d t a)) = d"
  by (auto simp: process_departure_def)

lemma drive_append:
  "drive s (xs @ ys) =
     (case drive s xs of (s1, c1) \<Rightarrow> (case drive s1 ys of (s2, c2) \<Rightarrow> (s2, c1 @ c2)))"
  by (induction xs arbitrary: s) (auto split: prod.splits)

lemma drive_snoc:
  "fst (drive s (fs @ [(d, t, a)])) = fst (process_departure (fst (drive s fs)) d t a)"
  by (simp add: drive_append split: prod.splits)

lemma drive_quiet:
  "last_departure_state s \<Longrightarrow> departure_start_time s = Some t0 \<Longrightarrow>
   \<forall>(t, a) \<in> set quiet. t - t0 \<le> continuous_alert_threshold s \<or> a \<Longrightarrow>
   drive s (map (Pair True) quiet) = (s, replicate (length quiet) [])"
proof (induction quiet)
  case Nil
  show ?case by simp
next
  case (Cons f quiet)
  obtain t a where f: "f = (t, a)" by (cases f)
  have "t - t0 \<le> continuous_alert_threshold s \<or> a"
    using Cons.prems(3) f by simp
  then have "process_departure s True t a = (s, [])"
    by (rule process_departure_quiet [OF Cons.prems(1) Cons.prems(2)])
  then show ?case
    using Cons f by simp
qed

lemma drive_departing:
  "last_departure_state s \<Longrightarrow>
   fst (drive s (map (Pair True) fs)) = s
   \<and> length (snd (drive s (map (Pair True) fs))) = length fs"
proof (induction fs)
  case Nil
  show ?case by simp
next
  case (Cons f fs)
  obtain t a where f: "f = (t, a)" by (cases f)
  obtain c where c: "process_departure s True t a = (s, c)"
    using process_departure_continuing_state [OF Cons.prems, of t a]
    by (cases "process_departure s True t a") simp
  show ?case
    using Cons f c by (cases "drive s (map (Pair True) fs)") simp
qed

text \<open>
  The machine driven from a state whose last frame was not departing (the initial state is
  one), with the escalation window of 2.0 seconds that \<^verbatim>\<open>__init__\<close> sets, when the clock
  reading \<open>t0\<close> of the first departing frame is not \<open>0.0\<close>. That frame issues exactly
  \<^verbatim>\<open>play_beep\<close> and records \<open>t0\<close>. Every following departing frame that comes at most 2.0
  seconds after \<open>t0\<close>, or while a thread of the sink is alive, issues nothing. The first
  departing frame more than 2.0 seconds after \<open>t0\<close> with no thread alive at the sink issues
  exactly \<^verbatim>\<open>play_continuous_alert(duration=5.0)\<close>. After any number of further departing
  frames, the first frame that is not departing issues exactly \<^verbatim>\<open>stop_continuous_alert\<close>
  and clears the start time.
\<close>

lemma alert_sequence_nonzero_start:
  assumes idle: "\<not> last_departure_state s"
    and two: "continuous_alert_threshold s = 2.0"
    and clock: "t0 \<noteq> 0"
    and quiet: "\<forall>(t, a) \<in> set quiet. t - t0 \<le> 2.0 \<or> a"
    and late: "t1 - t0 > 2.0"
  shows "\<exists>repeats.
     drive s ((True, t0, a0) # map (Pair True) quiet @ [(True, t1, False)]
              @ map (Pair True) still @ [(False, t2, a2)]) =
       (s\<lparr>departure_start_time := None, last_departure_state := False\<rparr>,
        [PlayBeep] # replicate (length quiet) [] @ [[PlayContinuousAlert 5.0]]
        @ repeats @ [[StopContinuousAlert]])
     \<and> length repeats = length still
     \<and> fst (drive s [(True, t0, a0)]) =
         s\<lparr>departure_start_time := Some t0, last_departure_state := True\<rparr>"
proof -
  define s1 where "s1 = s\<lparr>departure_start_time := Some t0, last_departure_state := True\<rparr>"
  have s1: "last_departure_state s1" "departure_start_time s1 = Some t0"
    "continuous_alert_threshold s1 = 2.0"
    by (simp_all add: s1_def two)
  have first: "process_departure s True t0 a0 = (s1, [PlayBeep])"
    using process_departure_start [OF idle] by (simp add: s1_def)
  have q: "drive s1 (map (Pair True) quiet) = (s1, replicate (length quiet) [])"
    using drive_quiet [OF s1(1) s1(2), of quiet] quiet by (simp add: s1(3))
  have esc: "process_departure s1 True t1 False = (s1, [PlayContinuousAlert 5.0])"
    using process_departure_escalate [OF s1(1) s1(2) clock, of t1] late by (simp add: s1(3))
  obtain repeats where r: "drive s1 (map (Pair True) still) = (s1, repeats)"
    and lr: "length repeats = length still"
    using drive_departing [OF s1(1), of still]
    by (cases "drive s1 (map (Pair True) still)") simp
  have home: "process_departure s1 False t2 a2 =
      (s\<lparr>departure_start_time := None, last_departure_state := False\<rparr>, [StopContinuousAlert])"
    using process_departure_return [OF s1(1), of t2 a2] by (simp add: s1_def)
  have "drive s ((True, t0, a0) # map (Pair True) quiet @ [(True, t1, False)]
              @ map (Pair True) still @ [(False, t2, a2)]) =
       (s\<lparr>departure_start_time := None, last_departure_state := False\<rparr>,
        [PlayBeep] # replicate (length quiet) [] @ [[PlayContinuousAlert 5.0]]
        @ repeats @ [[StopContinuousAlert]])"
    by (simp add: first drive_append q esc r home)
  moreover have "fst (drive s [(True, t0, a0)]) = s1"
    by (simp add: first)
  ultimately show ?thesis
    using lr unfolding s1_def by blast
qed

text \<open>
  The scenario of the specification, on a clock that starts at 1000 s: departing frames at
  0, 0.5 and 1.9 s, one at 2.05 s while the beep's thread is alive, escalation at 2.1 s, a
  further departing frame while the continuous alert runs, and the return to the lane.
\<close>

lemma alert_sequence_clock_1000:
  "drive LaneDepartureAlert_init
     [(True, 1000, False), (True, 1000.5, True), (True, 1001.9, False), (True, 1002.05, True),
      (True, 1002.1, False), (True, 1002.6, True), (False, 1003, True)] =
     (LaneDepartureAlert_init,
      [[PlayBeep], [], [], [], [PlayContinuousAlert 5.0], [], [StopContinuousAlert]])"
proof -
  have h1: "\<not> last_departure_state LaneDepartureAlert_init"
    and h2: "continuous_alert_threshold LaneDepartureAlert_init = 2.0"
    by (simp_all add: LaneDepartureAlert_init_def)
  have h3: "(1000::real) \<noteq> 0" by simp
  have h4: "\<forall>(t, a) \<in> set [(1000.5::real, True), (1001.9, False), (1002.05, True)].
      t - 1000 \<le> 2.0 \<or> a"
    by simp
  have h5: "(1002.1::real) - 1000 > 2.0" by simp
  from alert_sequence_nonzero_start [OF h1 h2 h3 h4 h5, of False "[(1002.6, True)]" 1003 True]
  obtain repeats where
    d: "drive LaneDepartureAlert_init
     ((True, 1000, False)
        # map (Pair True) [(1000.5::real, True), (1001.9, False), (1002.05, True)]
        @ [(True, 1002.1, False)] @ map (Pair True) [(1002.6, True)] @ [(False, 1003, True)]) =
       (LaneDepartureAlert_init\<lparr>departure_start_time := None, last_departure_state := False\<rparr>,
        [PlayBeep]
        # replicate (length [(1000.5::real, True), (1001.9, False), (1002.05, True)]) []
        @ [[PlayContinuousAlert 5.0]] @ repeats @ [[StopContinuousAlert]])"
    and l: "length repeats = length [(1002.6::real, True)]"
    by blast
  have r: "repeats = [[]]"
    using d l
    by (simp add: process_departure_def LaneDepartureAlert_init_def truthy_def)
  show ?thesis
    using d by (simp add: r LaneDepartureAlert_init_def)
qed


lemma process_departure_invariant:
  "(departure_start_time s \<noteq> None) = last_departure_state s \<Longrightarrow>
   (departure_start_time (fst (process_departure s d t a)) \<noteq> None) =
     last_departure_state (fst (process_departure s d t a))"
  by (auto simp: process_departure_def)

lemma drive_invariant:
  "(departure_start_time (fst (drive LaneDepartureAlert_init fs)) \<noteq> None) =
     last_departure_state (fst (drive LaneDepartureAlert_init fs))"
proof (induction fs rule: rev_induct)
  case Nil
  show ?case by (simp add: LaneDepartureAlert_init_def)
next
  case (snoc f fs)
  obtain d t a where f: "f = (d, t, a)" by (cases f)
  show ?case
    unfolding f drive_snoc using snoc by (rule process_departure_invariant)
qed

lemma drive_last_flag:
  "last_departure_state (fst (drive LaneDepartureAlert_init fs)) = (fs \<noteq> [] \<and> fst (last fs))"
proof (induction fs rule: rev_induct)
  case Nil
  show ?case by (simp add: LaneDepartureAlert_init_def)
next
  case (snoc f fs)
  obtain d t a where f: "f = (d, t, a)" by (cases f)
  show ?case
    unfolding f drive_snoc by (simp add: process_departure_last)
qed

lemma cleared_exactly:
  "(departure_start_time s \<noteq> None) = last_departure_state s \<Longrightarrow>
   (departure_start_time s \<noteq> None \<and> departure_start_time (fst (process_departure s d t a)) = None)
     = (last_departure_state s \<and> \<not> d)"
  by (auto simp: process_departure_def)

text \<open>
  Claim C6. In every state reached from the initial one by any sequence of
  \<^verbatim>\<open>process_departure\<close> calls, the start time is set if and only if the last frame processed
  was departing (there is such a frame, and its flag was true); and one more call clears a
  set start time if and only if the machine was departing and the new frame is not.
\<close>

theorem C6_start_time_invariant:
  "(departure_start_time (fst (drive LaneDepartureAlert_init fs)) \<noteq> None) =
     last_departure_state (fst (drive LaneDepartureAlert_init fs))
   \<and> last_departure_state (fst (drive LaneDepartureAlert_init fs)) = (fs \<noteq> [] \<and> fst (last fs))
   \<and> ((departure_start_time (fst (drive LaneDepartureAlert_init fs)) \<noteq> None
        \<and> departure_start_time (fst (drive LaneDepartureAlert_init (fs @ [(d, t, a)]))) = None)
       = (last_departure_state (fst (drive LaneDepartureAlert_init fs)) \<and> \<not> d))"
proof -
  let ?s = "fst (drive LaneDepartureAlert_init fs)"
  have inv: "(departure_start_time ?s \<noteq> None) = last_departure_state ?s"
    by (rule drive_invariant)
  have flag: "last_departure_state ?s = (fs \<noteq> [] \<and> fst (last fs))"
    by (rule drive_last_flag)
  have clr: "(departure_start_time ?s \<noteq> None
        \<and> departure_start_time (fst (drive LaneDepartureAlert_init (fs @ [(d, t, a)]))) = None)
       = (last_departure_state ?s \<and> \<not> d)"
    unfolding drive_snoc by (rule cleared_exactly [OF inv])
  from inv flag clr show ?thesis by (intro conjI)
qed

subsection \<open>Failed captures and failed detections\<close>

lemma loop_body_failed_capture:
  "\<not> cam_ret t \<Longrightarrow> loop_body self t = (self, [], Continue)"
  by (simp add: loop_body_def)

lemma run_loop_skips_failed:
  "run_loop self ts = run_loop self (filter cam_ret ts)"
proof (induction ts arbitrary: self)
  case Nil
  show ?case by simp
next
  case (Cons t ts)
  show ?case
  proof (cases "cam_ret t")
    case True
    then show ?thesis
      using Cons.IH by (simp split: prod.splits flow.splits)
  next
    case False
    then show ?thesis
      using Cons.IH [of self] by (simp add: loop_body_failed_capture)
  qed
qed

text \<open>
  Claim C9. An iteration whose capture fails returns the system as it was (detector,
  \<^verbatim>\<open>last_lane_center\<close>, alert machine and frame count included), issues no command and
  goes on to the next iteration; hence a run of the loop is the run on the successful
  captures alone.
\<close>

theorem C9_failed_capture_skipped:
  "(\<not> cam_ret t \<longrightarrow>
      loop_body self t = (self, [], Continue) \<and> run_loop self (t # ts) = run_loop self ts)
   \<and> run_loop self ts = run_loop self (filter cam_ret ts)"
  using run_loop_skips_failed [of self ts] by (simp add: loop_body_failed_capture)

theorem C9_failed_capture_skipped_witness:
  "loop_body
     \<lparr>threshold = 50, show_display = True, lane_detector = create_lane_detector 50,
      audio_alert = create_audio_alert 800 0.3 0.5 1.0 True,
      departure_alert = LaneDepartureAlert_init, frame_count = 0\<rparr>
     \<lparr>cam_ret = False, cam_frame = None, clock = 1000, sink_thread_alive = False,
      pressed_key = KeyQ\<rparr> =
   (\<lparr>threshold = 50, show_display = True, lane_detector = create_lane_detector 50,
      audio_alert = create_audio_alert 800 0.3 0.5 1.0 True,
      departure_alert = LaneDepartureAlert_init, frame_count = 0\<rparr>, [], Continue)"
proof -
  let ?t = "\<lparr>cam_ret = False, cam_frame = None, clock = 1000, sink_thread_alive = False,
      pressed_key = KeyQ\<rparr>"
  have "\<not> cam_ret ?t" by simp
  then show ?thesis
    using C9_failed_capture_skipped [of ?t _ "[]"] by simp
qed

text \<open>
  Claim C10. \<^verbatim>\<open>detect_lanes\<close> returns \<^verbatim>\<open>_empty_result()\<close> for a \<^verbatim>\<open>None\<close> frame, for an
  exception in the OpenCV steps and for an exception while drawing: offset \<open>0.0\<close>,
  \<^verbatim>\<open>off_lane\<close> false, no lane centre, no lines, no processed frame. The alert machine treats
  this result as a frame that is not departing; when it was departing, it stops the
  continuous alert and clears the start time.
\<close>

theorem C10_errors_give_empty_result:
  "detect_lanes self None = (self, empty_result)
   \<and> (cv_lines fr = CvRaises \<longrightarrow> detect_lanes self (Some fr) = (self, empty_result))
   \<and> (overlay_raises fr \<longrightarrow> snd (detect_lanes self (Some fr)) = empty_result)
   \<and> offset empty_result = 0 \<and> \<not> off_lane empty_result \<and> lane_center empty_result = None
   \<and> lines empty_result = None \<and> processed_frame empty_result = None
   \<and> process_departure alert (off_lane empty_result) t a = process_departure alert False t a
   \<and> (last_departure_state alert \<longrightarrow>
        process_departure alert (off_lane empty_result) t a =
          (alert\<lparr>departure_start_time := None, last_departure_state := False\<rparr>,
           [StopContinuousAlert]))"
  by (auto simp: detect_lanes_def empty_result_def process_departure_def
      split: cv_result.splits prod.splits)

theorem C10_errors_give_empty_result_witness:
  "snd (detect_lanes (create_lane_detector 50)
         (Some \<lparr>frame_width = 1280, cv_lines = CvRaises, overlay_raises = False\<rparr>)) = empty_result
   \<and> snd (detect_lanes (create_lane_detector 50)
         (Some \<lparr>frame_width = 1280, cv_lines = CvLines None, overlay_raises = True\<rparr>)) = empty_result
   \<and> snd (process_departure
        \<lparr>last_departure_state = True, departure_start_time = Some 1000,
         continuous_alert_threshold = 2.0\<rparr> (off_lane empty_result) 1003 True) =
       [StopContinuousAlert]"
proof -
  let ?crash = "\<lparr>frame_width = 1280, cv_lines = CvRaises, overlay_raises = False\<rparr>"
  let ?draw = "\<lparr>frame_width = 1280, cv_lines = CvLines None, overlay_raises = True\<rparr>"
  let ?alert = "\<lparr>last_departure_state = True, departure_start_time = Some 1000,
         continuous_alert_threshold = 2.0\<rparr>"
  have a: "cv_lines ?crash = CvRaises" by simp
  have b: "overlay_raises ?draw" by simp
  have c: "last_departure_state ?alert" by simp
  show ?thesis
    using C10_errors_give_empty_result [of "create_lane_detector 50" ?crash ?alert 1003 True]
      C10_errors_give_empty_result [of "create_lane_detector 50" ?draw ?alert 1003 True]
      a b c
    by simp
qed

end
